theory Spec2Isabelle
  imports Main "HOL-Library.Word"
begin

section \<open>The file reader (file_reader.h, file_reader.c)\<close>

text \<open>
  \<^verbatim>\<open>main.c\<close> includes \<^verbatim>\<open>file_reader.h\<close> and calls \<^verbatim>\<open>file_reader_init\<close>,
  \<^verbatim>\<open>file_reader_tick\<close> and \<^verbatim>\<open>file_reader_free\<close>; it reads the fields
  \<^verbatim>\<open>reader->file_size\<close>, \<^verbatim>\<open>reader->buffer_size\<close> and \<^verbatim>\<open>reader->buffer\<close>.
  The implementation of the reader is not part of the sources at hand, so the three
  operations are modelled from the specification's section 4.1 (FileSource).
\<close>

type_synonym byte = "8 word"

datatype io_error = NotFound | Unreadable | ReadFailed

text \<open>
  A file system maps a path to the bytes of the file, or to the error that opening it gives.
\<close>

type_synonym file_system = "string \<Rightarrow> io_error + byte list"

text \<open>
  The reader. \<open>file_size\<close>, \<open>buffer_size\<close> (the specification's \<open>buffer_capacity\<close>) and
  \<open>buffer\<close> carry the names \<^verbatim>\<open>main.c\<close> uses; \<open>window_offset\<close> and \<open>valid_length\<close> are
  the specification's. \<open>file_data\<close> stands for the open handle: the bytes a read returns.
\<close>

record file_reader =
  path :: string
  file_data :: "byte list"
  file_size :: int
  buffer_size :: int
  buffer :: "byte list"
  window_offset :: int
  valid_length :: int

text \<open>
  \<^verbatim>\<open>#define DEFAULT_BUFFER_SIZE 512\<close> of \<^verbatim>\<open>main.c\<close>: the initial value of
  \<^verbatim>\<open>buffer_size\<close> there, and the default size of the specification's \<open>open\<close>.
\<close>

definition DEFAULT_BUFFER_SIZE :: int where
  "DEFAULT_BUFFER_SIZE = 512"

text \<open>
  Modelled from the spec: the \<open>clamp(x, lo, hi)\<close> of the specification's \<open>tick\<close>, which
  is part of the missing \<^verbatim>\<open>file_reader_tick\<close>.
\<close>

definition clamp :: "int \<Rightarrow> int \<Rightarrow> int \<Rightarrow> int" where
  "clamp x lo hi = (if x < lo then lo else if hi < x then hi else x)"

text \<open>
  Modelled from the spec: the read inside the missing \<^verbatim>\<open>file_reader_init\<close> and
  \<^verbatim>\<open>file_reader_tick\<close>. Repositioning the read cursor to \<open>off\<close> and reading up to \<open>n\<close>
  bytes gives the bytes that are there, fewer than \<open>n\<close> near the end of the file.
\<close>

definition read_at :: "byte list \<Rightarrow> int \<Rightarrow> int \<Rightarrow> byte list" where
  "read_at data off n = take (nat n) (drop (nat off) data)"

text \<open>
  Modelled from the spec: \<^verbatim>\<open>file_reader_init\<close>, whose body is missing. The specification's
  \<open>open(path, requested_buffer_size)\<close>: it fails when the file cannot be opened; on success
  it sets \<open>file_size\<close>, sets the capacity to \<open>min(requested_buffer_size, file_size)\<close>
  where a zero or negative request is treated as the default size, and fills the buffer
  from offset 0.
\<close>

definition file_reader_init :: "file_system \<Rightarrow> string \<Rightarrow> int \<Rightarrow> io_error + file_reader" where
  "file_reader_init fs p requested =
     (case fs p of
        Inl e \<Rightarrow> Inl e
      | Inr data \<Rightarrow>
          (let size = int (length data);
               request = (if requested \<le> 0 then DEFAULT_BUFFER_SIZE else requested);
               capacity = min request size;
               buf = read_at data 0 capacity
           in Inr \<lparr>path = p, file_data = data, file_size = size, buffer_size = capacity,
                   buffer = buf, window_offset = 0, valid_length = int (length buf)\<rparr>))"

text \<open>
  Modelled from the spec: the target of the missing \<^verbatim>\<open>file_reader_tick\<close>. The
  specification's \<open>tick(desired_offset)\<close> computes
  \<open>clamp(desired_offset, 0, file_size - buffer_capacity)\<close>, clamped to 0 if
  \<open>file_size < buffer_capacity\<close>.
\<close>

definition tick_target :: "file_reader \<Rightarrow> int \<Rightarrow> int" where
  "tick_target r desired_offset =
     (if file_size r < buffer_size r then 0
      else clamp desired_offset 0 (file_size r - buffer_size r))"

text \<open>
  Modelled from the spec: \<^verbatim>\<open>file_reader_tick\<close>, whose body is missing. If the target is
  the current window offset nothing happens and no I/O occurs. Otherwise the read cursor
  is moved to the target and up to \<open>buffer_capacity\<close> bytes are read; \<open>window_offset\<close>
  becomes the target and \<open>valid_length\<close> the number of bytes read. A read failure is
  reported as \<open>ReadFailed\<close> and leaves the reader as it was. Whether the read of this
  call fails is an input (\<open>read_fails\<close>). The call in \<^verbatim>\<open>main\<close> is a statement: nothing the
  function reports is looked at; the reported error is the second component here.
\<close>

definition file_reader_tick :: "file_reader \<Rightarrow> int \<Rightarrow> bool \<Rightarrow> file_reader \<times> io_error option" where
  "file_reader_tick r desired_offset read_fails =
     (let target = tick_target r desired_offset in
      if target = window_offset r then (r, None)
      else if read_fails then (r, Some ReadFailed)
      else (let buf = read_at (file_data r) target (buffer_size r)
            in (r\<lparr>buffer := buf, window_offset := target, valid_length := int (length buf)\<rparr>,
                None)))"

text \<open>A history of ticks: each with its requested offset and whether its read fails.\<close>

fun ticks :: "file_reader \<Rightarrow> (int \<times> bool) list \<Rightarrow> file_reader" where
  "ticks r [] = r"
| "ticks r ((off, fails) # rest) = ticks (fst (file_reader_tick r off fails)) rest"

text \<open>What holds of a reader between operations.\<close>

definition reader_inv :: "file_reader \<Rightarrow> bool" where
  "reader_inv r \<longleftrightarrow>
     file_size r = int (length (file_data r)) \<and>
     0 \<le> buffer_size r \<and> buffer_size r \<le> file_size r \<and>
     0 \<le> window_offset r \<and> window_offset r \<le> file_size r - buffer_size r \<and>
     buffer r = read_at (file_data r) (window_offset r) (buffer_size r) \<and>
     valid_length r = buffer_size r"

section \<open>The raster display (display.h)\<close>

text \<open>
  \<^verbatim>\<open>main.c\<close> writes \<^verbatim>\<open>display->w\<close> and \<^verbatim>\<open>display->h\<close>, reads
  \<^verbatim>\<open>display->file_offset\<close>, and calls \<^verbatim>\<open>raster_display_init\<close>,
  \<^verbatim>\<open>raster_display_draw_dialog\<close>, \<^verbatim>\<open>raster_display_draw\<close>, \<^verbatim>\<open>raster_display_render\<close>
  and \<^verbatim>\<open>raster_display_free\<close>, whose bodies are not part of the sources at hand. The
  record holds the three fields \<^verbatim>\<open>main\<close> touches; the pixel grid lies behind
  \<^verbatim>\<open>raster_display_draw\<close>, which a run records as a step with its arguments.
\<close>

record raster_display =
  w :: int
  h :: int
  file_offset :: int

text \<open>
  Modelled from the spec: \<^verbatim>\<open>raster_display_init\<close>, whose body is missing. The
  specification's \<open>init\<close> fails with \<open>InvalidViewport\<close> if either dimension is \<open>\<le> 0\<close>;
  the C function returns a null pointer then. The arguments are those of the call in
  \<^verbatim>\<open>main\<close> after the GUI context: width, height, file size and buffer size.
\<close>

definition raster_display_init :: "int \<Rightarrow> int \<Rightarrow> int \<Rightarrow> int \<Rightarrow> raster_display option" where
  "raster_display_init width height fsize bsize =
     (if width \<le> 0 \<or> height \<le> 0 then None
      else Some \<lparr>w = width, h = height, file_offset = 0\<rparr>)"

text \<open>
  Modelled from the spec: \<^verbatim>\<open>raster_display_draw_dialog\<close>, whose body is missing. The
  desired offset is derived from the scroll/seek state of the UI, an external input of
  each frame; if no scroll occurred it is what it was.
\<close>

definition raster_display_draw_dialog :: "raster_display \<Rightarrow> int option \<Rightarrow> raster_display" where
  "raster_display_draw_dialog d scroll_input =
     (case scroll_input of None \<Rightarrow> d | Some off \<Rightarrow> d\<lparr>file_offset := off\<rparr>)"

section \<open>The main program (main.c)\<close>

subsection \<open>What the program does, step by step\<close>

text \<open>
  The calls \<^verbatim>\<open>main\<close> makes and what it prints, in the order of execution. A call whose
  result a property needs carries it: whether the window was created, the size the window
  query returned, the reader a tick left and the error it reported, the display and the
  bytes handed to the draw, the value read from the interrupt flag.
  \<open>Set_display_size\<close> is the pair of assignments \<^verbatim>\<open>display->w = window_w; display->h = window_h\<close>.
\<close>

datatype event =
    Signal_sigint
  | Print_help
  | Diagnostic string
  | Info string
  | Info_initially_read int
  | Glfw_set_error_callback
  | Glfw_init
  | Glfw_window_hints
  | Glfw_create_window int int string bool
  | Glfw_make_context_current
  | Glfw_get_window_size int int
  | Gl3w_init
  | Gl_viewport int int int int
  | Nk_glfw3_init
  | Nk_font_stash
  | File_reader_init string int
  | Raster_display_init int int int int
  | Glfw_window_should_close bool
  | Glfw_poll_events
  | Nk_glfw3_new_frame
  | Set_display_size int int
  | Raster_display_draw_dialog
  | File_reader_tick int file_reader "io_error option"
  | Raster_display_draw raster_display "byte list"
  | Raster_display_render
  | Nk_glfw3_render
  | Glfw_swap_buffers
  | Read_interrupt_flag bool
  | Raster_display_free
  | Nk_glfw3_shutdown
  | Glfw_terminate
  | File_reader_free

text \<open>
  How a run ends: \<^verbatim>\<open>return\<close> from \<^verbatim>\<open>main\<close> with an exit code, \<^verbatim>\<open>abort()\<close>, undefined
  behaviour of the C program, or still in the frame loop when the frames given to the
  model are used up.
\<close>

datatype status = Exited int | Aborted | Undefined | Running

definition EXIT_SUCCESS :: int where
  "EXIT_SUCCESS = 0"

definition EXIT_FAILURE :: int where
  "EXIT_FAILURE = 1"

definition DEFAULT_WINDOW_PREFIX :: string where
  "DEFAULT_WINDOW_PREFIX = ''glraster''"

definition DEFAULT_WINDOW_W :: int where
  "DEFAULT_WINDOW_W = 1024"

definition DEFAULT_WINDOW_H :: int where
  "DEFAULT_WINDOW_H = 768"

definition MAX_TITLE_LEN :: nat where
  "MAX_TITLE_LEN = 128"

subsection \<open>The environment\<close>

text \<open>
  One frame of the loop, as the environment decides it: what \<^verbatim>\<open>glfwWindowShouldClose\<close>
  returns at the head of the loop, the scroll input the dialog receives, whether a read
  of the tick fails, the size \<^verbatim>\<open>glfwGetWindowSize\<close> returns, and the value of
  \<^verbatim>\<open>interrupt_flag\<close> (set by the SIGINT handler) when the loop reads it.
\<close>

record frame_input =
  should_close :: bool
  scroll :: "int option"
  read_fails :: bool
  window_size :: "int \<times> int"
  interrupt_flag :: bool

text \<open>
  How the option scan ends. \<^verbatim>\<open>option_list\<close> in \<^verbatim>\<open>main\<close> has the three entries
  \<^verbatim>\<open>file\<close>, \<^verbatim>\<open>size\<close> and \<^verbatim>\<open>help\<close> and no terminating entry of zeros, which
  \<^verbatim>\<open>getopt_long\<close> requires as the last element. A short option, and a long option that is
  exactly one of the three names, is resolved without going past the third entry. For any
  other long option (an unrecognized one, or an abbreviation) \<^verbatim>\<open>getopt_long\<close> walks the
  array beyond its end. So the scan returns some results and then either returns \<open>-1\<close>,
  or meets such a long option and reads past \<^verbatim>\<open>option_list\<close>.
\<close>

datatype scan_end = End_of_options | Reads_past_option_list

text \<open>
  A run of the program. \<open>getopt_results\<close> are the successive results of \<^verbatim>\<open>getopt_long\<close>
  on the command line for the option string \<^verbatim>\<open>"f:s:h"\<close>: the returned code with
  \<^verbatim>\<open>optarg\<close>; \<open>getopt_end\<close> is what the call after the last of them does.
  \<open>MAX_FILE_LEN\<close> is the constant of \<^verbatim>\<open>file_reader.h\<close>, whose value is not in the sources
  at hand. The rest are the answers of GLFW and gl3w, the file system, and the frames.
\<close>

record platform =
  getopt_results :: "(int \<times> string) list"
  getopt_end :: scan_end
  MAX_FILE_LEN :: nat
  glfwInit_ok :: bool
  glfwCreateWindow_ok :: bool
  startup_window_size :: "int \<times> int"
  gl3wInit_result :: int
  files :: file_system
  frames :: "frame_input list"

subsection \<open>Command-line options\<close>

text \<open>
  The codes \<^verbatim>\<open>getopt_long\<close> returns, as the \<^verbatim>\<open>switch\<close> of \<^verbatim>\<open>main\<close> names them: the
  characters \<^verbatim>\<open>'f'\<close>, \<^verbatim>\<open>'s'\<close>, \<^verbatim>\<open>'h'\<close> and \<^verbatim>\<open>'?'\<close>.
\<close>

abbreviation OPT_f :: int where "OPT_f \<equiv> 102"
abbreviation OPT_s :: int where "OPT_s \<equiv> 115"
abbreviation OPT_h :: int where "OPT_h \<equiv> 104"
abbreviation OPT_unknown :: int where "OPT_unknown \<equiv> 63"

text \<open>
  \<^verbatim>\<open>strtol(optarg, NULL, 10)\<close> of the C library: white space is skipped, an optional
  sign is read, then decimal digits up to the first other character; no digits give 0;
  a value out of range gives \<open>LONG_MAX\<close> or \<open>LONG_MIN\<close> (a 64-bit \<^verbatim>\<open>long\<close>).
\<close>

definition LONG_MAX :: int where
  "LONG_MAX = 2 ^ 63 - 1"

definition LONG_MIN :: int where
  "LONG_MIN = - (2 ^ 63)"

definition isspace :: "char \<Rightarrow> bool" where
  "isspace c \<longleftrightarrow> c = CHR '' '' \<or> (9 \<le> (of_char c :: nat) \<and> (of_char c :: nat) \<le> 13)"

definition isdigit :: "char \<Rightarrow> bool" where
  "isdigit c \<longleftrightarrow> 48 \<le> (of_char c :: nat) \<and> (of_char c :: nat) \<le> 57"

fun digits_value :: "int \<Rightarrow> string \<Rightarrow> int" where
  "digits_value acc [] = acc"
| "digits_value acc (c # cs) =
     (if isdigit c then digits_value (acc * 10 + (of_char c - 48)) cs else acc)"

definition strtol :: "string \<Rightarrow> int" where
  "strtol s =
     (let s1 = dropWhile isspace s;
          negative = (case s1 of c # _ \<Rightarrow> c = CHR ''-'' | [] \<Rightarrow> False);
          s2 = (case s1 of c # cs \<Rightarrow> if c = CHR ''-'' \<or> c = CHR ''+'' then cs else s1 | [] \<Rightarrow> []);
          v = digits_value 0 s2
      in max LONG_MIN (min LONG_MAX (if negative then - v else v)))"

text \<open>
  The option loop of \<^verbatim>\<open>main\<close>. \<^verbatim>\<open>strncpy(file_path, optarg, MAX_FILE_LEN)\<close> copies at most
  \<open>MAX_FILE_LEN\<close> characters, so \<open>file_path\<close> holds \<open>take n optarg\<close>; it is terminated
  only when \<open>optarg\<close> is shorter than \<open>n\<close>. After the last result the next call of
  \<^verbatim>\<open>getopt_long\<close> returns \<open>-1\<close>, which leaves the loop, or reads past \<^verbatim>\<open>option_list\<close>,
  which is undefined behaviour.
\<close>

datatype options =
  Options_done string int | Options_help | Options_abort | Options_undefined

fun option_loop :: "nat \<Rightarrow> (int \<times> string) list \<Rightarrow> scan_end \<Rightarrow> string \<Rightarrow> int \<Rightarrow> options" where
  "option_loop n [] e file_path size_arg =
     (case e of
        End_of_options \<Rightarrow> Options_done file_path size_arg
      | Reads_past_option_list \<Rightarrow> Options_undefined)"
| "option_loop n ((opt, optarg) # rest) e file_path size_arg =
     (if opt = - 1 then Options_done file_path size_arg
      else if opt = OPT_f then option_loop n rest e (take n optarg) size_arg
      else if opt = OPT_s then option_loop n rest e file_path (strtol optarg)
      else if opt = OPT_h \<or> opt = OPT_unknown then Options_help
      else Options_abort)"

subsection \<open>Start-up\<close>

text \<open>\<^verbatim>\<open>snprintf(window_title, sizeof(window_title), "[%s] - %s", ...)\<close>.\<close>

definition window_title :: "string \<Rightarrow> string" where
  "window_title file_path =
     take (MAX_TITLE_LEN - 1) (''['' @ DEFAULT_WINDOW_PREFIX @ ''] - '' @ file_path)"

text \<open>The local variables of \<^verbatim>\<open>main\<close> that the frame loop uses.\<close>

record loop_state =
  window_w :: int
  window_h :: int
  display :: raster_display
  reader :: file_reader

text \<open>
  From \<^verbatim>\<open>glfwSetErrorCallback\<close> to the message that the program is initialised: either
  an early return (status and what was done), or the state the loop starts in.
\<close>

definition startup :: "platform \<Rightarrow> string \<Rightarrow> int \<Rightarrow> (status \<times> event list) + (loop_state \<times> event list)" where
  "startup p file_path size_arg =
     (let ev1 = [Glfw_set_error_callback, Glfw_init] in
      if \<not> glfwInit_ok p
      then Inl (Exited EXIT_FAILURE, ev1 @ [Diagnostic ''[FAIL] - GLFW failed to initialize''])
      else
      let ev2 = ev1 @ [Glfw_window_hints,
                  Glfw_create_window DEFAULT_WINDOW_W DEFAULT_WINDOW_H (window_title file_path)
                    (glfwCreateWindow_ok p)] in
      if \<not> glfwCreateWindow_ok p
      then Inl (Exited EXIT_FAILURE, ev2 @ [Diagnostic ''[FAIL] - Unable to create the window''])
      else
      let ww = fst (startup_window_size p);
          wh = snd (startup_window_size p);
          ev3 = ev2 @ [Glfw_make_context_current, Glfw_get_window_size ww wh, Gl3w_init] in
      if gl3wInit_result p \<noteq> 0
      then Inl (Exited EXIT_FAILURE, ev3 @ [Diagnostic ''[FAIL] - gl3w failed to initialize''])
      else
      let ev4 = ev3 @ [Gl_viewport 0 0 DEFAULT_WINDOW_W DEFAULT_WINDOW_H, Nk_glfw3_init,
                  Nk_font_stash, File_reader_init file_path size_arg] in
      case file_reader_init (files p) file_path size_arg of
        Inl e \<Rightarrow>
          Inl (Exited EXIT_FAILURE,
               ev4 @ [Diagnostic ''[FAIL] - Failed to read input file in argument''])
      | Inr r \<Rightarrow>
          (let ev5 = ev4 @ [Info_initially_read (buffer_size r),
                       Raster_display_init ww wh (file_size r) (buffer_size r)] in
           case raster_display_init ww wh (file_size r) (buffer_size r) of
             None \<Rightarrow>
               Inl (Exited EXIT_FAILURE,
                    ev5 @ [Diagnostic ''[FAIL] - Could not initialize raster display''])
           | Some d \<Rightarrow>
               Inr (\<lparr>window_w = ww, window_h = wh, display = d, reader = r\<rparr>,
                    ev5 @ [Info ''[INFO] - Initialized program and display''])))"

subsection \<open>The frame loop\<close>

text \<open>
  The display after \<^verbatim>\<open>display->w = window_w; display->h = window_h\<close> and the dialog, and
  the tick with \<^verbatim>\<open>display->file_offset\<close>.
\<close>

definition frame_display :: "loop_state \<Rightarrow> frame_input \<Rightarrow> raster_display" where
  "frame_display st f =
     raster_display_draw_dialog ((display st)\<lparr>w := window_w st, h := window_h st\<rparr>) (scroll f)"

definition frame_tick :: "loop_state \<Rightarrow> frame_input \<Rightarrow> file_reader \<times> io_error option" where
  "frame_tick st f =
     file_reader_tick (reader st) (file_offset (frame_display st f)) (read_fails f)"

text \<open>
  The body of the loop up to \<^verbatim>\<open>glfwSwapBuffers\<close>: the state it leaves and what it did.
  The result of the tick is not looked at; the draw receives \<^verbatim>\<open>reader->buffer\<close>.
\<close>

definition frame_body :: "loop_state \<Rightarrow> frame_input \<Rightarrow> loop_state \<times> event list" where
  "frame_body st f =
     (let d = frame_display st f;
          r = fst (frame_tick st f);
          ww = fst (window_size f);
          wh = snd (window_size f)
      in (\<lparr>window_w = ww, window_h = wh, display = d, reader = r\<rparr>,
          [Glfw_poll_events, Nk_glfw3_new_frame,
           Set_display_size (window_w st) (window_h st),
           Raster_display_draw_dialog,
           File_reader_tick (file_offset d) r (snd (frame_tick st f)),
           Raster_display_draw d (buffer r),
           Glfw_get_window_size ww wh,
           Raster_display_render, Nk_glfw3_render, Glfw_swap_buffers]))"

text \<open>
  The loop: \<open>True\<close> with what was done when the loop was left, \<open>False\<close> when the frames
  given are used up and the loop is still running.
\<close>

fun frame_loop :: "frame_input list \<Rightarrow> loop_state \<Rightarrow> bool \<times> event list" where
  "frame_loop [] st = (False, [])"
| "frame_loop (f # fs) st =
     (if should_close f then (True, [Glfw_window_should_close True])
      else if interrupt_flag f
      then (True, Glfw_window_should_close False # snd (frame_body st f) @
                  [Read_interrupt_flag True, Info ''[INFO] - CTRL-C detected...''])
      else (fst (frame_loop fs (fst (frame_body st f))),
            Glfw_window_should_close False # snd (frame_body st f) @
            Read_interrupt_flag False # snd (frame_loop fs (fst (frame_body st f)))))"

definition shutdown :: "event list" where
  "shutdown = [Raster_display_free, Nk_glfw3_shutdown, Glfw_terminate, File_reader_free,
               Info ''[INFO] - Closed the program successfully'']"

subsection \<open>main\<close>

text \<open>
  Undefined behaviour of the C program has two sources here: \<^verbatim>\<open>getopt_long\<close> reading past
  \<^verbatim>\<open>option_list\<close>, and \<^verbatim>\<open>strlen(file_path)\<close> reading past the array when \<open>file_path\<close>
  is not terminated, which is the case when it holds \<open>MAX_FILE_LEN\<close> characters.
\<close>

definition main :: "platform \<Rightarrow> status \<times> event list" where
  "main p =
     (case option_loop (MAX_FILE_LEN p) (getopt_results p) (getopt_end p) [] DEFAULT_BUFFER_SIZE of
        Options_help \<Rightarrow> (Exited EXIT_SUCCESS, [Signal_sigint, Print_help])
      | Options_abort \<Rightarrow> (Aborted, [Signal_sigint])
      | Options_undefined \<Rightarrow> (Undefined, [Signal_sigint])
      | Options_done file_path size_arg \<Rightarrow>
          if MAX_FILE_LEN p \<le> length file_path then (Undefined, [Signal_sigint])
          else if length file_path \<le> 0
          then (Exited EXIT_FAILURE,
                [Signal_sigint, Diagnostic ''[FAIL] - No input file provided'', Print_help])
          else
            (case startup p file_path size_arg of
               Inl (st, evs) \<Rightarrow> (st, Signal_sigint # evs)
             | Inr (st0, evs) \<Rightarrow>
                 (if fst (frame_loop (frames p) st0)
                  then (Exited EXIT_SUCCESS,
                        Signal_sigint # evs @ snd (frame_loop (frames p) st0) @ shutdown)
                  else (Running, Signal_sigint # evs @ snd (frame_loop (frames p) st0)))))"

section \<open>Reading a run\<close>

text \<open>
  The loop is entered when the option loop ends with a terminated, non-empty file path and
  the start-up succeeds: the state at the head of the first iteration, and what was done
  from \<^verbatim>\<open>glfwSetErrorCallback\<close> on.
\<close>

definition loop_entry :: "platform \<Rightarrow> (loop_state \<times> event list) option" where
  "loop_entry p =
     (case option_loop (MAX_FILE_LEN p) (getopt_results p) (getopt_end p) [] DEFAULT_BUFFER_SIZE of
        Options_done file_path size_arg \<Rightarrow>
          if MAX_FILE_LEN p \<le> length file_path \<or> length file_path \<le> 0 then None
          else (case startup p file_path size_arg of Inl _ \<Rightarrow> None | Inr x \<Rightarrow> Some x)
      | _ \<Rightarrow> None)"

text \<open>The frames whose body is executed: up to the first that closes the window or interrupts.\<close>

fun frames_run :: "frame_input list \<Rightarrow> frame_input list" where
  "frames_run [] = []"
| "frames_run (f # fs) =
     (if should_close f then [] else if interrupt_flag f then [f] else f # frames_run fs)"



text \<open>
  The polls of the interrupt flag. The loop condition is evaluated between iterations.
  An iteration begins with \<^verbatim>\<open>glfwPollEvents\<close> and goes through the tick, the draw,
  \<^verbatim>\<open>raster_display_render\<close>, \<^verbatim>\<open>nk_glfw3_render\<close> and \<^verbatim>\<open>glfwSwapBuffers\<close>, once each and
  in this order; the flag is read as the step right after \<^verbatim>\<open>glfwSwapBuffers\<close>, and
  nowhere else. Once the flag was found set, or the window was found closing, the loop is
  left: none of these steps follows.
\<close>

datatype poll_phase =
  Outside | Frame_begun | Frame_ticked | Frame_drawn | Frame_rendered | Gui_rendered | Swapped
  | Loop_left

fun interrupt_polls :: "poll_phase \<Rightarrow> event list \<Rightarrow> bool" where
  "interrupt_polls ph [] = (ph = Outside \<or> ph = Loop_left)"
| "interrupt_polls ph (e # t) =
     (case e of
        Glfw_window_should_close b \<Rightarrow>
          ph = Outside \<and> interrupt_polls (if b then Loop_left else Outside) t
      | Glfw_poll_events \<Rightarrow> ph = Outside \<and> interrupt_polls Frame_begun t
      | File_reader_tick off r err \<Rightarrow> ph = Frame_begun \<and> interrupt_polls Frame_ticked t
      | Raster_display_draw d b \<Rightarrow> ph = Frame_ticked \<and> interrupt_polls Frame_drawn t
      | Raster_display_render \<Rightarrow> ph = Frame_drawn \<and> interrupt_polls Frame_rendered t
      | Nk_glfw3_render \<Rightarrow> ph = Frame_rendered \<and> interrupt_polls Gui_rendered t
      | Glfw_swap_buffers \<Rightarrow> ph = Gui_rendered \<and> interrupt_polls Swapped t
      | Read_interrupt_flag b \<Rightarrow>
          ph = Swapped \<and> interrupt_polls (if b then Loop_left else Outside) t
      | _ \<Rightarrow> ph \<noteq> Swapped \<and> interrupt_polls ph t)"

text \<open>
  A failed tick in a run: the reader it leaves has the buffer it had (\<open>cur\<close>), and the
  step right after it is the draw, with that buffer.
\<close>

definition next_draws :: "byte list \<Rightarrow> event list \<Rightarrow> bool" where
  "next_draws b t = (case t of Raster_display_draw d b' # t' \<Rightarrow> b' = b | _ \<Rightarrow> False)"

fun failed_ticks_drawn :: "byte list \<Rightarrow> event list \<Rightarrow> bool" where
  "failed_ticks_drawn cur [] = True"
| "failed_ticks_drawn cur (e # t) =
     (case e of
        File_reader_tick off r err \<Rightarrow>
          (case err of
             Some x \<Rightarrow> buffer r = cur \<and> next_draws cur t \<and> failed_ticks_drawn cur t
           | None \<Rightarrow> failed_ticks_drawn (buffer r) t)
      | _ \<Rightarrow> failed_ticks_drawn cur t)"

definition is_draw :: "event \<Rightarrow> bool" where
  "is_draw e = (case e of Raster_display_draw d b \<Rightarrow> True | _ \<Rightarrow> False)"

text \<open>
  The viewport through a run: the sizes assigned to the display, the sizes of the display
  the draw receives, and the sizes the window query returns, in order.
\<close>

datatype viewport_step = Assigned int int | Drawn_with int int | Queried int int

fun viewport_steps :: "event list \<Rightarrow> viewport_step list" where
  "viewport_steps [] = []"
| "viewport_steps (e # t) =
     (case e of
        Set_display_size a b \<Rightarrow> Assigned a b # viewport_steps t
      | Raster_display_draw d buf \<Rightarrow> Drawn_with (w d) (h d) # viewport_steps t
      | Glfw_get_window_size a b \<Rightarrow> Queried a b # viewport_steps t
      | _ \<Rightarrow> viewport_steps t)"

text \<open>
  What the claim on the viewport says of the executed frames: an iteration assigns the
  size queried last (\<open>q\<close>: at start-up, or in the iteration before), draws, then queries.
\<close>

fun claimed_viewport_steps :: "int \<times> int \<Rightarrow> frame_input list \<Rightarrow> viewport_step list" where
  "claimed_viewport_steps q [] = []"
| "claimed_viewport_steps q (f # fs) =
     Assigned (fst q) (snd q) # Drawn_with (fst q) (snd q) #
     Queried (fst (window_size f)) (snd (window_size f)) #
     claimed_viewport_steps (window_size f) fs"

text \<open>The calls of \<^verbatim>\<open>file_reader_init\<close> in a run, with their arguments.\<close>

fun file_reader_init_calls :: "event list \<Rightarrow> (string \<times> int) list" where
  "file_reader_init_calls [] = []"
| "file_reader_init_calls (e # t) =
     (case e of
        File_reader_init p n \<Rightarrow> (p, n) # file_reader_init_calls t
      | _ \<Rightarrow> file_reader_init_calls t)"

definition is_window_created :: "event \<Rightarrow> bool" where
  "is_window_created e = (case e of Glfw_create_window a b title ok \<Rightarrow> ok | _ \<Rightarrow> False)"

definition is_diagnostic :: "event \<Rightarrow> bool" where
  "is_diagnostic e = (case e of Diagnostic msg \<Rightarrow> True | _ \<Rightarrow> False)"

section \<open>A sample run\<close>

definition example_data :: "byte list" where
  "example_data = [10, 11, 12, 13, 14, 15, 16, 17, 18, 19]"

definition example_files :: file_system where
  "example_files p = (if p = ''a.bin'' then Inr example_data else Inl NotFound)"

definition example_reader :: file_reader where
  "example_reader =
     \<lparr>path = ''a.bin'', file_data = example_data, file_size = 10, buffer_size = 4,
      buffer = [10, 11, 12, 13], window_offset = 0, valid_length = 4\<rparr>"

definition example_reader_default :: file_reader where
  "example_reader_default =
     \<lparr>path = ''a.bin'', file_data = example_data, file_size = 10, buffer_size = 10,
      buffer = example_data, window_offset = 0, valid_length = 10\<rparr>"

definition example_reader_at_6 :: file_reader where
  "example_reader_at_6 = example_reader\<lparr>buffer := [16, 17, 18, 19], window_offset := 6\<rparr>"

text \<open>
  Three frames: a scroll to offset 100; a scroll to offset 2 whose read fails, with the
  interrupt flag set at the end of the frame; a frame that would close the window.
\<close>

definition example_frame1 :: frame_input where
  "example_frame1 =
     \<lparr>should_close = False, scroll = Some 100, read_fails = False,
      window_size = (800, 600), interrupt_flag = False\<rparr>"

definition example_frame2 :: frame_input where
  "example_frame2 =
     \<lparr>should_close = False, scroll = Some 2, read_fails = True,
      window_size = (640, 480), interrupt_flag = True\<rparr>"

definition example_frame3 :: frame_input where
  "example_frame3 =
     \<lparr>should_close = True, scroll = None, read_fails = False,
      window_size = (640, 480), interrupt_flag = False\<rparr>"

definition example_frames :: "frame_input list" where
  "example_frames = [example_frame1, example_frame2, example_frame3]"

text \<open>The command line \<^verbatim>\<open>-f a.bin -s 4\<close> on a platform where everything succeeds.\<close>

definition example_platform :: platform where
  "example_platform =
     \<lparr>getopt_results = [(OPT_f, ''a.bin''), (OPT_s, ''4'')], getopt_end = End_of_options,
      MAX_FILE_LEN = 256,
      glfwInit_ok = True, glfwCreateWindow_ok = True, startup_window_size = (1024, 768),
      gl3wInit_result = 0, files = example_files, frames = example_frames\<rparr>"

definition example_entry_state :: loop_state where
  "example_entry_state =
     \<lparr>window_w = 1024, window_h = 768,
      display = \<lparr>w = 1024, h = 768, file_offset = 0\<rparr>, reader = example_reader\<rparr>"

definition example_entry_events :: "event list" where
  "example_entry_events =
     [Glfw_set_error_callback, Glfw_init, Glfw_window_hints,
      Glfw_create_window 1024 768 ''[glraster] - a.bin'' True,
      Glfw_make_context_current, Glfw_get_window_size 1024 768, Gl3w_init,
      Gl_viewport 0 0 1024 768, Nk_glfw3_init, Nk_font_stash,
      File_reader_init ''a.bin'' 4, Info_initially_read 4,
      Raster_display_init 1024 768 10 4,
      Info ''[INFO] - Initialized program and display'']"

definition example_loop_events :: "event list" where
  "example_loop_events =
     [Glfw_window_should_close False, Glfw_poll_events, Nk_glfw3_new_frame,
      Set_display_size 1024 768, Raster_display_draw_dialog,
      File_reader_tick 100 example_reader_at_6 None,
      Raster_display_draw \<lparr>w = 1024, h = 768, file_offset = 100\<rparr> [16, 17, 18, 19],
      Glfw_get_window_size 800 600, Raster_display_render, Nk_glfw3_render, Glfw_swap_buffers,
      Read_interrupt_flag False,
      Glfw_window_should_close False, Glfw_poll_events, Nk_glfw3_new_frame,
      Set_display_size 800 600, Raster_display_draw_dialog,
      File_reader_tick 2 example_reader_at_6 (Some ReadFailed),
      Raster_display_draw \<lparr>w = 800, h = 600, file_offset = 2\<rparr> [16, 17, 18, 19],
      Glfw_get_window_size 640 480, Raster_display_render, Nk_glfw3_render, Glfw_swap_buffers,
      Read_interrupt_flag True, Info ''[INFO] - CTRL-C detected...'']"

text \<open>Other command lines on the same platform.\<close>

definition example_missing_file :: platform where
  "example_missing_file = example_platform\<lparr>getopt_results := [(OPT_f, ''missing.bin'')]\<rparr>"

definition example_missing_file_help :: platform where
  "example_missing_file_help =
     example_platform\<lparr>getopt_results := [(OPT_f, ''missing.bin''), (OPT_h, [])]\<rparr>"

definition example_no_size :: platform where
  "example_no_size = example_platform\<lparr>getopt_results := [(OPT_f, ''a.bin'')]\<rparr>"


definition example_unknown_option :: platform where
  "example_unknown_option =
     example_platform\<lparr>getopt_results := [(OPT_s, ''64''), (OPT_unknown, [])]\<rparr>"

text \<open>
  The command line \<^verbatim>\<open>--foo\<close>: the first call of \<^verbatim>\<open>getopt_long\<close> meets a long option that
  is none of \<^verbatim>\<open>file\<close>, \<^verbatim>\<open>size\<close>, \<^verbatim>\<open>help\<close>.
\<close>

definition example_unknown_long_option :: platform where
  "example_unknown_long_option =
     example_platform\<lparr>getopt_results := [], getopt_end := Reads_past_option_list\<rparr>"

definition example_only_unknown_option :: platform where
  "example_only_unknown_option = example_platform\<lparr>getopt_results := [(OPT_unknown, [])]\<rparr>"

definition example_no_file :: platform where
  "example_no_file = example_platform\<lparr>getopt_results := [(OPT_s, ''64'')]\<rparr>"

section \<open>Properties of the file reader\<close>

lemma length_read_at:
  "0 \<le> off \<Longrightarrow> 0 \<le> n \<Longrightarrow> off + n \<le> int (length data) \<Longrightarrow> int (length (read_at data off n)) = n"
  by (simp add: read_at_def min_def) linarith

lemma tick_target_range:
  "0 \<le> buffer_size r \<Longrightarrow> buffer_size r \<le> file_size r \<Longrightarrow>
   0 \<le> tick_target r off \<and> tick_target r off \<le> file_size r - buffer_size r"
  by (simp add: tick_target_def clamp_def)

lemma file_reader_init_inv:
  assumes "file_reader_init fs p requested = Inr r"
  shows "reader_inv r"
proof -
  obtain data where d: "fs p = Inr data"
    using assms by (auto simp: file_reader_init_def split: sum.splits)
  let ?request = "if requested \<le> 0 then DEFAULT_BUFFER_SIZE else requested"
  let ?cap = "min ?request (int (length data))"
  have r: "r = \<lparr>path = p, file_data = data, file_size = int (length data), buffer_size = ?cap,
                 buffer = read_at data 0 ?cap, window_offset = 0,
                 valid_length = int (length (read_at data 0 ?cap))\<rparr>"
    using assms d by (simp add: file_reader_init_def Let_def)
  have cap: "0 \<le> ?cap" "?cap \<le> int (length data)"
    by (simp_all add: DEFAULT_BUFFER_SIZE_def)
  have "int (length (read_at data 0 ?cap)) = ?cap"
    using cap by (intro length_read_at) simp_all
  then show ?thesis
    using cap unfolding reader_inv_def r by simp
qed

lemma file_reader_tick_inv:
  assumes "reader_inv r"
  shows "reader_inv (fst (file_reader_tick r off fails))"
proof -
  let ?t = "tick_target r off"
  have range: "0 \<le> ?t" "?t \<le> file_size r - buffer_size r"
    using assms tick_target_range [of r off] by (simp_all add: reader_inv_def)
  have "int (length (read_at (file_data r) ?t (buffer_size r))) = buffer_size r"
    using assms range by (intro length_read_at) (simp_all add: reader_inv_def)
  then show ?thesis
    using assms range by (simp add: file_reader_tick_def Let_def reader_inv_def)
qed

lemma ticks_inv: "reader_inv r \<Longrightarrow> reader_inv (ticks r hist)"
proof (induction hist arbitrary: r)
  case Nil
  then show ?case by simp
next
  case (Cons x hist)
  obtain off fails where x: "x = (off, fails)" by (cases x)
  show ?case
    unfolding x ticks.simps by (rule Cons.IH) (rule file_reader_tick_inv [OF Cons.prems])
qed

lemma file_reader_tick_sizes:
  "file_size (fst (file_reader_tick r off fails)) = file_size r \<and>
   buffer_size (fst (file_reader_tick r off fails)) = buffer_size r"
  by (simp add: file_reader_tick_def Let_def)

lemma ticks_sizes: "file_size (ticks r hist) = file_size r \<and> buffer_size (ticks r hist) = buffer_size r"
proof (induction hist arbitrary: r)
  case Nil
  then show ?case by simp
next
  case (Cons x hist)
  obtain off fails where x: "x = (off, fails)" by (cases x)
  show ?case
    unfolding x ticks.simps using Cons.IH file_reader_tick_sizes by simp
qed

lemma file_reader_init_sizes:
  assumes "file_reader_init fs p requested = Inr r"
  shows "\<exists>data. fs p = Inr data \<and> file_size r = int (length data) \<and>
           buffer_size r = min (if requested \<le> 0 then DEFAULT_BUFFER_SIZE else requested) (int (length data))"
  using assms by (auto simp: file_reader_init_def Let_def split: sum.splits)

lemma tick_ok_window:
  assumes "reader_inv r" and "file_reader_tick r off fails = (r', None)"
  shows "window_offset r' = tick_target r off \<and> valid_length r' = buffer_size r"
proof -
  let ?t = "tick_target r off"
  have range: "0 \<le> ?t" "?t \<le> file_size r - buffer_size r"
    using assms(1) tick_target_range [of r off] by (simp_all add: reader_inv_def)
  have len: "int (length (read_at (file_data r) ?t (buffer_size r))) = buffer_size r"
    using assms(1) range by (intro length_read_at) (simp_all add: reader_inv_def)
  show ?thesis
    using assms len by (auto simp: file_reader_tick_def Let_def reader_inv_def split: if_splits)
qed

text \<open>
  C1, as amended. A file of size \<open>S\<close> is opened with a requested buffer size \<open>B > 0\<close>;
  after any history of ticks, a tick to offset \<open>off\<close> that reports no read failure leaves
  \<open>window_offset = clamp(off, 0, S - B)\<close> and \<open>valid_length = B\<close> when \<open>B \<le> S\<close>, and
  \<open>window_offset = 0\<close> and \<open>valid_length = S\<close> when \<open>B > S\<close>.
\<close>

theorem tick_window_after_open:
  assumes "file_reader_init fs p B = Inr r0"
    and "0 < B"
    and "file_reader_tick (ticks r0 hist) off fails = (r, None)"
  shows "(B \<le> file_size r0 \<longrightarrow> window_offset r = clamp off 0 (file_size r0 - B) \<and> valid_length r = B) \<and>
         (file_size r0 < B \<longrightarrow> window_offset r = 0 \<and> valid_length r = file_size r0)"
proof -
  let ?r = "ticks r0 hist"
  have inv: "reader_inv ?r"
    by (rule ticks_inv) (rule file_reader_init_inv [OF assms(1)])
  have sizes: "file_size ?r = file_size r0" "buffer_size ?r = buffer_size r0"
    using ticks_sizes [of r0 hist] by simp_all
  have cap: "buffer_size r0 = min B (file_size r0)" "0 \<le> file_size r0"
    using file_reader_init_sizes [OF assms(1)] assms(2) by auto
  have w: "window_offset r = tick_target ?r off" "valid_length r = buffer_size ?r"
    using tick_ok_window [OF inv assms(3)] by simp_all
  show ?thesis
    using w cap by (auto simp: sizes tick_target_def clamp_def min_def)
qed

theorem tick_window_after_open_witness:
  "file_reader_init example_files ''a.bin'' 4 = Inr example_reader \<and> (0::int) < 4 \<and>
   file_reader_tick (ticks example_reader [(3, False)]) 100 False =
     (example_reader\<lparr>buffer := [16, 17, 18, 19], window_offset := 6\<rparr>, None) \<and>
   window_offset (example_reader\<lparr>buffer := [16, 17, 18, 19], window_offset := 6\<rparr>) =
     clamp 100 0 (10 - 4) \<and>
   valid_length (example_reader\<lparr>buffer := [16, 17, 18, 19], window_offset := 6\<rparr>) = 4"
proof -
  have open_ok: "file_reader_init example_files ''a.bin'' 4 = Inr example_reader"
    by (simp add: file_reader_init_def example_files_def example_data_def example_reader_def
        Let_def read_at_def)
  have positive: "(0::int) < 4" by simp
  have tick_ok: "file_reader_tick (ticks example_reader [(3, False)]) 100 False =
      (example_reader\<lparr>buffer := [16, 17, 18, 19], window_offset := 6\<rparr>, None)"
    by (simp add: file_reader_tick_def tick_target_def clamp_def example_reader_def
        example_data_def Let_def read_at_def)
  have size: "file_size example_reader = 10"
    by (simp add: example_reader_def)
  show ?thesis
    using tick_window_after_open [OF open_ok positive tick_ok] open_ok tick_ok
    by (simp add: size)
qed

text \<open>
  C1 as stated fails in two places. A request of 0 is replaced by the default size, so a
  file of 10 bytes opened with \<open>B = 0 \<le> S\<close> has \<open>valid_length = 10\<close>, not \<open>B\<close>. And a tick
  whose read fails leaves the window where it was: with \<open>S = 10\<close> and \<open>B = 4\<close>, a failed
  tick to offset 100 leaves \<open>window_offset = 0\<close>, not \<open>clamp(100, 0, 6)\<close>.
\<close>

theorem tick_window_counterexample:
  "file_reader_init example_files ''a.bin'' 0 = Inr example_reader_default \<and>
   (0::int) \<le> file_size example_reader_default \<and>
   file_reader_tick example_reader_default 0 False = (example_reader_default, None) \<and>
   valid_length example_reader_default \<noteq> 0 \<and>
   file_reader_init example_files ''a.bin'' 4 = Inr example_reader \<and>
   (4::int) \<le> file_size example_reader \<and>
   file_reader_tick example_reader 100 True = (example_reader, Some ReadFailed) \<and>
   window_offset example_reader \<noteq> clamp 100 0 (file_size example_reader - 4)"
  by (simp add: file_reader_init_def file_reader_tick_def tick_target_def clamp_def
      example_files_def example_data_def example_reader_def example_reader_default_def
      DEFAULT_BUFFER_SIZE_def Let_def read_at_def)

section \<open>Properties of the option loop\<close>

lemma option_loop_help:
  assumes "\<forall>r\<in>set rs. fst r \<in> {OPT_f, OPT_s, OPT_h, OPT_unknown}"
    and "\<exists>r\<in>set rs. fst r = OPT_h \<or> fst r = OPT_unknown"
  shows "option_loop n rs e file_path size_arg = Options_help"
  using assms
proof (induction rs arbitrary: file_path size_arg)
  case Nil
  then show ?case by simp
next
  case (Cons x rs)
  obtain opt optarg where x: "x = (opt, optarg)" by (cases x)
  from Cons.prems(1) have opt: "opt \<in> {OPT_f, OPT_s, OPT_h, OPT_unknown}" and
    rest: "\<forall>r\<in>set rs. fst r \<in> {OPT_f, OPT_s, OPT_h, OPT_unknown}"
    by (simp_all add: x)
  show ?case
  proof (cases "opt = OPT_h \<or> opt = OPT_unknown")
    case True
    then show ?thesis by (auto simp: x)
  next
    case False
    with Cons.prems(2) have "\<exists>r\<in>set rs. fst r = OPT_h \<or> fst r = OPT_unknown"
      by (auto simp: x)
    with rest have "\<And>fp sz. option_loop n rs e fp sz = Options_help"
      using Cons.IH by blast
    with False opt show ?thesis by (auto simp: x)
  qed
qed

lemma option_loop_sizes_only:
  "\<forall>r\<in>set rs. fst r = OPT_s \<Longrightarrow>
   \<exists>sz. option_loop n rs End_of_options file_path size_arg = Options_done file_path sz"
  by (induction rs arbitrary: size_arg) auto

lemma option_loop_no_size:
  "OPT_s \<notin> set (map fst rs) \<Longrightarrow> option_loop n rs e file_path size_arg = Options_done fp sz \<Longrightarrow>
   sz = size_arg"
  by (induction rs arbitrary: file_path) (auto split: if_splits scan_end.splits)



text \<open>
  An unrecognized option that \<^verbatim>\<open>getopt_long\<close> reports (a short option other than
  \<^verbatim>\<open>-f\<close>, \<^verbatim>\<open>-s\<close>, \<^verbatim>\<open>-h\<close>, or an option whose argument is missing): the \<open>?\<close> shares the
  branch of the help option, so the program prints the usage text and exits with code 0.
\<close>

lemma reported_unknown_option_exits_0:
  assumes "\<forall>r\<in>set (getopt_results p). fst r \<in> {OPT_f, OPT_s, OPT_h, OPT_unknown}"
    and "OPT_unknown \<in> set (map fst (getopt_results p))"
  shows "main p = (Exited 0, [Signal_sigint, Print_help])"
proof -
  from assms(2) have "\<exists>r\<in>set (getopt_results p). fst r = OPT_h \<or> fst r = OPT_unknown"
    by force
  from option_loop_help [OF assms(1) this] show ?thesis
    by (simp add: main_def EXIT_SUCCESS_def)
qed

lemma example_unknown_option_main:
  "main example_unknown_option = (Exited 0, [Signal_sigint, Print_help])"
  by (rule reported_unknown_option_exits_0) (simp_all add: example_unknown_option_def)

text \<open>
  C9. The claim says that every command line with an unrecognized option gives the usage
  text and exit code 0. The program does not do that for an unrecognized long option such
  as \<^verbatim>\<open>--foo\<close>: \<^verbatim>\<open>option_list\<close> lacks the terminating entry, \<^verbatim>\<open>getopt_long\<close> reads past
  the array before it can return \<open>?\<close>, and the run is undefined; nothing is printed by
  the program.
\<close>

theorem unknown_long_option_undefined:
  "getopt_results example_unknown_long_option = [] \<and>
   getopt_end example_unknown_long_option = Reads_past_option_list \<and>
   main example_unknown_long_option = (Undefined, [Signal_sigint]) \<and>
   main example_unknown_long_option \<noteq> (Exited 0, [Signal_sigint, Print_help])"
  by (simp add: main_def example_unknown_long_option_def)

text \<open>
  C4, as amended. When the command line has no file option, no help option and no
  unrecognized option (the option scan reports only size options, if any, and then
  returns \<open>-1\<close>), the program prints the diagnostic that no input file was provided and
  the usage text, and exits with code 1; nothing else is done: no file is opened and no
  window is created. \<open>MAX_FILE_LEN\<close> is positive.
\<close>

theorem no_file_option_exits_1:
  assumes "\<forall>r\<in>set (getopt_results p). fst r = OPT_s"
    and "getopt_end p = End_of_options"
    and "0 < MAX_FILE_LEN p"
  shows "main p =
    (Exited 1, [Signal_sigint, Diagnostic ''[FAIL] - No input file provided'', Print_help])"
proof -
  from option_loop_sizes_only [OF assms(1)]
  obtain sz where
    "option_loop (MAX_FILE_LEN p) (getopt_results p) End_of_options [] DEFAULT_BUFFER_SIZE =
     Options_done [] sz"
    by blast
  with assms(2,3) show ?thesis
    by (simp add: main_def EXIT_FAILURE_def)
qed

theorem no_file_option_exits_1_witness:
  "getopt_results example_no_file = [(OPT_s, ''64'')] \<and>
   main example_no_file =
     (Exited 1, [Signal_sigint, Diagnostic ''[FAIL] - No input file provided'', Print_help])"
proof -
  have results: "getopt_results example_no_file = [(OPT_s, ''64'')]"
    by (simp add: example_no_file_def)
  have sizes: "\<forall>r\<in>set (getopt_results example_no_file). fst r = OPT_s"
    by (simp add: results)
  have scan: "getopt_end example_no_file = End_of_options"
    by (simp add: example_no_file_def example_platform_def)
  have len: "0 < MAX_FILE_LEN example_no_file"
    by (simp add: example_no_file_def example_platform_def)
  from no_file_option_exits_1 [OF sizes scan len] results show ?thesis
    by simp
qed

text \<open>
  C4 as stated fails on a command line with an unrecognized option and nothing else: it
  has no file option and no help request, and the program exits with code 0 after the
  usage text, with no diagnostic of its own.
\<close>

theorem no_file_option_counterexample:
  "getopt_results example_only_unknown_option = [(OPT_unknown, [])] \<and>
   OPT_f \<notin> set (map fst (getopt_results example_only_unknown_option)) \<and>
   OPT_h \<notin> set (map fst (getopt_results example_only_unknown_option)) \<and>
   main example_only_unknown_option = (Exited 0, [Signal_sigint, Print_help])"
  by (simp add: main_def example_only_unknown_option_def EXIT_SUCCESS_def)

section \<open>Properties of the start-up\<close>

lemma file_reader_init_calls_append:
  "file_reader_init_calls (a @ b) = file_reader_init_calls a @ file_reader_init_calls b"
  by (induction a) (auto split: event.splits)

lemma file_reader_init_calls_frame_loop:
  "file_reader_init_calls (snd (frame_loop fs st)) = []"
  by (induction fs arbitrary: st)
    (simp_all add: frame_body_def Let_def file_reader_init_calls_append)

lemma file_reader_init_calls_startup_Inl:
  "startup p file_path size_arg = Inl (s, evs) \<Longrightarrow>
   set (file_reader_init_calls evs) \<subseteq> {(file_path, size_arg)}"
  by (auto simp: startup_def Let_def split: if_splits sum.splits option.splits)

lemma file_reader_init_calls_startup_Inr:
  "startup p file_path size_arg = Inr (st0, evs) \<Longrightarrow>
   file_reader_init_calls evs = [(file_path, size_arg)]"
  by (auto simp: startup_def Let_def split: if_splits sum.splits option.splits)

lemma file_reader_init_calls_main:
  "(path_arg, n) \<in> set (file_reader_init_calls (snd (main p))) \<Longrightarrow>
   \<exists>fp. option_loop (MAX_FILE_LEN p) (getopt_results p) (getopt_end p) [] DEFAULT_BUFFER_SIZE = Options_done fp n"
  by (auto simp: main_def shutdown_def file_reader_init_calls_append
      file_reader_init_calls_frame_loop
      dest: file_reader_init_calls_startup_Inl file_reader_init_calls_startup_Inr
      split: options.splits if_splits sum.splits prod.splits)

text \<open>
  C6. When the option scan reports no size option (\<^verbatim>\<open>-s\<close> or \<^verbatim>\<open>--size\<close>), every call of
  \<^verbatim>\<open>file_reader_init\<close> in the run passes 512 as the requested buffer size.
\<close>

theorem default_buffer_size_512:
  assumes "OPT_s \<notin> set (map fst (getopt_results p))"
  shows "list_all (\<lambda>c. snd c = 512) (file_reader_init_calls (snd (main p)))"
  unfolding list_all_iff
proof
  fix c assume "c \<in> set (file_reader_init_calls (snd (main p)))"
  then have "(fst c, snd c) \<in> set (file_reader_init_calls (snd (main p)))"
    by simp
  from file_reader_init_calls_main [OF this] obtain fp where
    "option_loop (MAX_FILE_LEN p) (getopt_results p) (getopt_end p) [] DEFAULT_BUFFER_SIZE = Options_done fp (snd c)"
    by blast
  from option_loop_no_size [OF assms this] show "snd c = 512"
    by (simp add: DEFAULT_BUFFER_SIZE_def)
qed

lemma example_no_size_calls:
  "file_reader_init_calls (snd (main example_no_size)) = [(''a.bin'', 512)]"
  by (simp add: main_def startup_def example_no_size_def example_platform_def
      example_files_def file_reader_init_def Let_def raster_display_init_def
      DEFAULT_BUFFER_SIZE_def file_reader_init_calls_append file_reader_init_calls_frame_loop
      shutdown_def)

theorem default_buffer_size_512_witness:
  "OPT_s \<notin> set (map fst (getopt_results example_no_size)) \<and>
   file_reader_init_calls (snd (main example_no_size)) = [(''a.bin'', 512)] \<and>
   list_all (\<lambda>c. snd c = 512) (file_reader_init_calls (snd (main example_no_size)))"
proof -
  have no_size: "OPT_s \<notin> set (map fst (getopt_results example_no_size))"
    by (simp add: example_no_size_def)
  from default_buffer_size_512 [OF no_size] no_size example_no_size_calls
  show ?thesis by simp
qed

text \<open>
  C3, as amended. When the option loop ends with a file path that is not empty and shorter
  than \<open>MAX_FILE_LEN\<close> (so no help option and no unrecognized option was met), and the
  file cannot be opened, the program exits with code 1 and the last thing it prints is a
  diagnostic. The file is opened after the window is created: the run has created a window
  exactly when GLFW initialised and the window creation succeeded, and it reaches
  \<^verbatim>\<open>file_reader_init\<close> exactly when gl3w initialised as well.
\<close>

theorem unopenable_file_exits_1:
  assumes "option_loop (MAX_FILE_LEN p) (getopt_results p) (getopt_end p) [] DEFAULT_BUFFER_SIZE =
             Options_done file_path size_arg"
    and "0 < length file_path" and "length file_path < MAX_FILE_LEN p"
    and "files p file_path = Inl e"
  shows "fst (main p) = Exited 1 \<and> is_diagnostic (last (snd (main p))) \<and>
         list_ex is_window_created (snd (main p)) = (glfwInit_ok p \<and> glfwCreateWindow_ok p) \<and>
         file_reader_init_calls (snd (main p)) =
           (if glfwInit_ok p \<and> glfwCreateWindow_ok p \<and> gl3wInit_result p = 0
            then [(file_path, size_arg)] else [])"
  using assms
  by (auto simp: main_def startup_def Let_def file_reader_init_def EXIT_FAILURE_def
      is_diagnostic_def is_window_created_def)

theorem unopenable_file_exits_1_witness:
  "files example_missing_file ''missing.bin'' = Inl NotFound \<and>
   fst (main example_missing_file) = Exited 1 \<and>
   is_diagnostic (last (snd (main example_missing_file))) \<and>
   list_ex is_window_created (snd (main example_missing_file)) \<and>
   file_reader_init_calls (snd (main example_missing_file)) = [(''missing.bin'', 512)]"
proof -
  have opts: "option_loop (MAX_FILE_LEN example_missing_file) (getopt_results example_missing_file)
      (getopt_end example_missing_file) [] DEFAULT_BUFFER_SIZE = Options_done ''missing.bin'' 512"
    by (simp add: example_missing_file_def example_platform_def DEFAULT_BUFFER_SIZE_def)
  have len: "0 < length ''missing.bin''" "length ''missing.bin'' < MAX_FILE_LEN example_missing_file"
    by (simp_all add: example_missing_file_def example_platform_def)
  have missing: "files example_missing_file ''missing.bin'' = Inl NotFound"
    by (simp add: example_missing_file_def example_platform_def example_files_def)
  from unopenable_file_exits_1 [OF opts len missing] missing show ?thesis
    by (simp add: example_missing_file_def example_platform_def)
qed

text \<open>
  C3 as stated fails in two places. With \<^verbatim>\<open>-f missing.bin\<close> on a platform where GLFW
  works, the window is created before the file is opened: the run exits with code 1 after
  the diagnostic, and has created a window. With \<^verbatim>\<open>-f missing.bin -h\<close> the program
  prints the usage text and exits with code 0.
\<close>

lemma example_missing_file_main:
  "main example_missing_file =
     (Exited 1,
      [Signal_sigint, Glfw_set_error_callback, Glfw_init, Glfw_window_hints,
       Glfw_create_window 1024 768 ''[glraster] - missing.bin'' True,
       Glfw_make_context_current, Glfw_get_window_size 1024 768, Gl3w_init,
       Gl_viewport 0 0 1024 768, Nk_glfw3_init, Nk_font_stash,
       File_reader_init ''missing.bin'' 512,
       Diagnostic ''[FAIL] - Failed to read input file in argument''])"
  by (simp add: main_def startup_def example_missing_file_def example_platform_def
      example_files_def file_reader_init_def Let_def window_title_def MAX_TITLE_LEN_def
      DEFAULT_WINDOW_PREFIX_def DEFAULT_WINDOW_W_def DEFAULT_WINDOW_H_def
      DEFAULT_BUFFER_SIZE_def EXIT_FAILURE_def)

theorem unopenable_file_counterexample:
  "files example_missing_file ''missing.bin'' = Inl NotFound \<and>
   getopt_results example_missing_file = [(OPT_f, ''missing.bin'')] \<and>
   fst (main example_missing_file) = Exited 1 \<and>
   Glfw_create_window 1024 768 ''[glraster] - missing.bin'' True
     \<in> set (snd (main example_missing_file)) \<and>
   list_ex is_window_created (snd (main example_missing_file)) \<and>
   files example_missing_file_help ''missing.bin'' = Inl NotFound \<and>
   getopt_results example_missing_file_help = [(OPT_f, ''missing.bin''), (OPT_h, [])] \<and>
   main example_missing_file_help = (Exited 0, [Signal_sigint, Print_help])"
proof -
  have "main example_missing_file_help = (Exited 0, [Signal_sigint, Print_help])"
    by (simp add: main_def example_missing_file_help_def EXIT_SUCCESS_def)
  moreover have "files example_missing_file ''missing.bin'' = Inl NotFound"
    "files example_missing_file_help ''missing.bin'' = Inl NotFound"
    by (simp_all add: example_missing_file_def example_missing_file_help_def
        example_platform_def example_files_def)
  moreover have "getopt_results example_missing_file = [(OPT_f, ''missing.bin'')]"
    "getopt_results example_missing_file_help = [(OPT_f, ''missing.bin''), (OPT_h, [])]"
    by (simp_all add: example_missing_file_def example_missing_file_help_def)
  ultimately show ?thesis
    by (simp add: example_missing_file_main is_window_created_def)
qed

section \<open>Properties of the frame loop\<close>

subsection \<open>Entering the loop\<close>

lemma main_loop_entry:
  assumes "loop_entry p = Some (st0, evs0)"
  shows "main p =
     (if fst (frame_loop (frames p) st0)
      then (Exited EXIT_SUCCESS, Signal_sigint # evs0 @ snd (frame_loop (frames p) st0) @ shutdown)
      else (Running, Signal_sigint # evs0 @ snd (frame_loop (frames p) st0)))"
  using assms
  by (auto simp: loop_entry_def main_def split: options.splits if_splits sum.splits)

lemma loop_entry_counts:
  assumes "loop_entry p = Some (st0, evs0)"
  shows "count_list evs0 Glfw_poll_events = 0" "count_list evs0 (Read_interrupt_flag b) = 0"
    "count_list evs0 File_reader_free = 0"
  using assms
  by (auto simp: loop_entry_def startup_def Let_def
      split: options.splits if_splits sum.splits option.splits)

lemma loop_entry_viewport:
  assumes "loop_entry p = Some (st0, evs0)"
  shows "viewport_steps evs0 = [Queried (fst (startup_window_size p)) (snd (startup_window_size p))]"
    "window_w st0 = fst (startup_window_size p)" "window_h st0 = snd (startup_window_size p)"
  using assms
  by (auto simp: loop_entry_def startup_def Let_def
      split: options.splits if_splits sum.splits option.splits)

lemma loop_entry_quiet:
  assumes "loop_entry p = Some (st0, evs0)"
  shows "filter is_draw evs0 = []" "failed_ticks_drawn c (evs0 @ t) = failed_ticks_drawn c t"
  using assms
  by (auto simp: loop_entry_def startup_def Let_def is_draw_def
      split: options.splits if_splits sum.splits option.splits)

lemma frame_display_size [simp]:
  "w (frame_display st f) = window_w st" "h (frame_display st f) = window_h st"
  by (simp_all add: frame_display_def raster_display_draw_dialog_def split: option.splits)

subsection \<open>The sample run\<close>

lemma example_options:
  "option_loop 256 [(OPT_f, ''a.bin''), (OPT_s, ''4'')] End_of_options [] DEFAULT_BUFFER_SIZE =
   Options_done ''a.bin'' 4"
  by (simp add: strtol_def isspace_def isdigit_def LONG_MAX_def LONG_MIN_def Let_def)

lemma example_init: "file_reader_init example_files ''a.bin'' 4 = Inr example_reader"
  by (simp add: file_reader_init_def example_files_def example_data_def example_reader_def
      Let_def read_at_def)

lemma example_startup:
  "startup example_platform ''a.bin'' 4 = Inr (example_entry_state, example_entry_events)"
  by (simp add: startup_def example_platform_def example_init Let_def raster_display_init_def
      example_entry_state_def example_entry_events_def window_title_def MAX_TITLE_LEN_def
      DEFAULT_WINDOW_PREFIX_def DEFAULT_WINDOW_W_def DEFAULT_WINDOW_H_def example_reader_def)

lemma example_loop_entry:
  "loop_entry example_platform = Some (example_entry_state, example_entry_events)"
  using example_options example_startup
  by (simp add: loop_entry_def example_platform_def)

lemma example_frame_loop:
  "frame_loop example_frames example_entry_state = (True, example_loop_events)"
  by (simp add: example_frames_def example_frame1_def example_frame2_def example_frame3_def
      example_entry_state_def example_loop_events_def
      example_reader_at_6_def example_reader_def example_data_def
      frame_body_def frame_tick_def frame_display_def raster_display_draw_dialog_def
      file_reader_tick_def tick_target_def clamp_def read_at_def Let_def)

lemma example_main:
  "main example_platform =
     (Exited 0, Signal_sigint # example_entry_events @ example_loop_events @ shutdown)"
  using main_loop_entry [OF example_loop_entry] example_frame_loop
  by (simp add: example_platform_def EXIT_SUCCESS_def)

subsection \<open>Tick, draw, render\<close>






subsection \<open>A tick that fails\<close>

lemma file_reader_tick_error:
  "snd (file_reader_tick r off fails) = Some e \<Longrightarrow> fst (file_reader_tick r off fails) = r"
  by (simp add: file_reader_tick_def Let_def split: if_splits)

lemma failed_ticks_drawn_frame:
  assumes "failed_ticks_drawn (buffer (reader (fst (frame_body st f)))) t"
  shows "failed_ticks_drawn (buffer (reader st)) (snd (frame_body st f) @ t)"
proof (cases "snd (frame_tick st f)")
  case None
  with assms show ?thesis
    by (simp add: frame_body_def Let_def)
next
  case (Some e)
  then have "fst (frame_tick st f) = reader st"
    unfolding frame_tick_def by (rule file_reader_tick_error)
  with Some assms show ?thesis
    by (simp add: frame_body_def Let_def next_draws_def)
qed

lemma failed_ticks_drawn_frame_loop:
  "(\<And>c. failed_ticks_drawn c t) \<Longrightarrow>
   failed_ticks_drawn (buffer (reader st)) (snd (frame_loop fs st) @ t)"
proof (induction fs arbitrary: st)
  case Nil
  then show ?case by simp
next
  case (Cons f fs)
  have step: "\<And>u. failed_ticks_drawn (buffer (reader (fst (frame_body st f)))) u \<Longrightarrow>
      failed_ticks_drawn (buffer (reader st))
        (Glfw_window_should_close False # snd (frame_body st f) @ u)"
    using failed_ticks_drawn_frame by simp
  show ?case
  proof (cases "should_close f")
    case True
    with Cons.prems show ?thesis by simp
  next
    case False
    show ?thesis
    proof (cases "interrupt_flag f")
      case True
      have "failed_ticks_drawn (buffer (reader st))
              (Glfw_window_should_close False # snd (frame_body st f) @
               ([Read_interrupt_flag True, Info ''[INFO] - CTRL-C detected...''] @ t))"
        by (rule step) (simp add: Cons.prems)
      with True False show ?thesis by simp
    next
      case no_interrupt: False
      have "failed_ticks_drawn (buffer (reader st))
              (Glfw_window_should_close False # snd (frame_body st f) @
               (Read_interrupt_flag False # snd (frame_loop fs (fst (frame_body st f))) @ t))"
        by (rule step) (simp add: Cons.IH [OF Cons.prems])
      with no_interrupt False show ?thesis by simp
    qed
  qed
qed

lemma draws_frame_loop:
  "length (filter is_draw (snd (frame_loop fs st))) = length (frames_run fs)"
  by (induction fs arbitrary: st) (simp_all add: frame_body_def Let_def is_draw_def)

lemma frame_loop_finished:
  "fst (frame_loop fs st) = list_ex (\<lambda>f. should_close f \<or> interrupt_flag f) fs"
  by (induction fs arbitrary: st) simp_all

text \<open>
  C7. In a run that enters the frame loop, a tick that reports a failure leaves the
  buffer of the reader as it was, and the step right after it is the draw of the same
  iteration, with that buffer. The failure ends neither the loop nor the process: one
  draw is executed for every frame up to the first that closes the window or sets the
  interrupt flag, and the run ends with code 0 if there is such a frame and is still in
  the loop otherwise, whatever reads fail.
\<close>

theorem tick_failure_not_fatal:
  assumes "loop_entry p = Some (st0, evs0)"
  shows "failed_ticks_drawn (buffer (reader st0)) (snd (main p)) \<and>
         length (filter is_draw (snd (main p))) = length (frames_run (frames p)) \<and>
         fst (main p) =
           (if list_ex (\<lambda>f. should_close f \<or> interrupt_flag f) (frames p)
            then Exited 0 else Running)"
proof (intro conjI)
  note m = main_loop_entry [OF assms]
  note quiet = loop_entry_quiet [OF assms]
  have sd: "\<And>c. failed_ticks_drawn c shutdown"
    by (simp add: shutdown_def)
  have nil: "\<And>c. failed_ticks_drawn c []"
    by simp
  show "failed_ticks_drawn (buffer (reader st0)) (snd (main p))"
    using failed_ticks_drawn_frame_loop [of shutdown st0 "frames p", OF sd]
      failed_ticks_drawn_frame_loop [of "[]" st0 "frames p", OF nil]
    by (simp add: m quiet)
  show "length (filter is_draw (snd (main p))) = length (frames_run (frames p))"
    by (simp add: m quiet draws_frame_loop shutdown_def is_draw_def)
  show "fst (main p) =
           (if list_ex (\<lambda>f. should_close f \<or> interrupt_flag f) (frames p)
            then Exited 0 else Running)"
    by (simp add: m frame_loop_finished EXIT_SUCCESS_def)
qed

theorem tick_failure_not_fatal_witness:
  "File_reader_tick 2 example_reader_at_6 (Some ReadFailed) \<in> set (snd (main example_platform)) \<and>
   failed_ticks_drawn [10, 11, 12, 13] (snd (main example_platform)) \<and>
   length (filter is_draw (snd (main example_platform))) = 2 \<and>
   fst (main example_platform) = Exited 0"
proof -
  have "File_reader_tick 2 example_reader_at_6 (Some ReadFailed) \<in> set (snd (main example_platform))"
    by (simp add: example_main example_loop_events_def)
  moreover have "buffer (reader example_entry_state) = [10, 11, 12, 13]"
    by (simp add: example_entry_state_def example_reader_def)
  ultimately show ?thesis
    using tick_failure_not_fatal [OF example_loop_entry]
    by (simp add: example_platform_def example_frames_def example_frame1_def
        example_frame2_def example_frame3_def)
qed

subsection \<open>The interrupt flag\<close>

lemma interrupt_polls_frame_loop:
  "interrupt_polls Outside (snd (frame_loop fs st) @ t) =
   interrupt_polls (if fst (frame_loop fs st) then Loop_left else Outside) t"
  by (induction fs arbitrary: st) (simp_all add: frame_body_def Let_def)

lemma interrupt_polls_frame_loop_Nil:
  "interrupt_polls Outside (snd (frame_loop fs st))"
  using interrupt_polls_frame_loop [of fs st "[]"] by simp

lemma interrupt_polls_startup:
  "startup p file_path size_arg = Inl (s, evs) \<Longrightarrow> interrupt_polls Outside evs"
  "startup p file_path size_arg = Inr (st0, evs) \<Longrightarrow>
   interrupt_polls Outside (evs @ t) = interrupt_polls Outside t"
  by (auto simp: startup_def Let_def split: if_splits sum.splits option.splits)

lemma interrupt_polls_main:
  "interrupt_polls Outside (snd (main p))"
  by (auto simp: main_def shutdown_def interrupt_polls_startup interrupt_polls_frame_loop
      interrupt_polls_frame_loop_Nil
      split: options.splits sum.splits)

lemma frame_loop_interrupted:
  assumes "\<forall>g\<in>set pre. \<not> should_close g \<and> \<not> interrupt_flag g"
    and "\<not> should_close f" and "interrupt_flag f"
  shows "fst (frame_loop (pre @ f # post) st) \<and>
         count_list (snd (frame_loop (pre @ f # post) st)) Glfw_poll_events = length pre + 1 \<and>
         count_list (snd (frame_loop (pre @ f # post) st)) (Read_interrupt_flag False) = length pre \<and>
         count_list (snd (frame_loop (pre @ f # post) st)) (Read_interrupt_flag True) = 1 \<and>
         count_list (snd (frame_loop (pre @ f # post) st)) File_reader_free = 0"
  using assms
  by (induction pre arbitrary: st) (simp_all add: frame_body_def Let_def)

lemma frame_body_last_step:
  "snd (frame_body st f) = butlast (snd (frame_body st f)) @ [Glfw_swap_buffers]"
  by (simp add: frame_body_def Let_def)

lemma frame_loop_interrupted_end:
  assumes "\<forall>g\<in>set pre. \<not> should_close g \<and> \<not> interrupt_flag g"
    and "\<not> should_close f" and "interrupt_flag f"
  shows "\<exists>t. snd (frame_loop (pre @ f # post) st) =
           t @ [Glfw_swap_buffers, Read_interrupt_flag True, Info ''[INFO] - CTRL-C detected...'']"
  using assms(1)
proof (induction pre arbitrary: st)
  case Nil
  have "snd (frame_loop (f # post) st) =
      (Glfw_window_should_close False # butlast (snd (frame_body st f))) @
      [Glfw_swap_buffers, Read_interrupt_flag True, Info ''[INFO] - CTRL-C detected...'']"
    using assms(2,3) frame_body_last_step [of st f] by simp
  then show ?case
    by (metis append_Nil)
next
  case (Cons g pre)
  then have g: "\<not> should_close g" "\<not> interrupt_flag g"
    and rest: "\<forall>g\<in>set pre. \<not> should_close g \<and> \<not> interrupt_flag g"
    by simp_all
  from Cons.IH [OF rest, of "fst (frame_body st g)"] obtain t where
    t: "snd (frame_loop (pre @ f # post) (fst (frame_body st g))) =
        t @ [Glfw_swap_buffers, Read_interrupt_flag True, Info ''[INFO] - CTRL-C detected...'']"
    by blast
  have "snd (frame_loop ((g # pre) @ f # post) st) =
      (Glfw_window_should_close False # snd (frame_body st g) @ Read_interrupt_flag False # t) @
      [Glfw_swap_buffers, Read_interrupt_flag True, Info ''[INFO] - CTRL-C detected...'']"
    using g by (simp add: t)
  then show ?case
    by blast
qed

lemma count_list_app:
  "count_list (a @ b) x = count_list a x + count_list b x"
  by (induction a) auto

text \<open>
  C8. In every run, each iteration of the frame loop goes through the tick, the draw,
  \<^verbatim>\<open>raster_display_render\<close>, \<^verbatim>\<open>nk_glfw3_render\<close> and \<^verbatim>\<open>glfwSwapBuffers\<close> in this order and
  then reads the interrupt flag once, as the step right after \<^verbatim>\<open>glfwSwapBuffers\<close>; the
  flag is read nowhere else, and once it was found set no step of the loop follows. When
  a run has entered the loop and the flag is first found set at the end of frame \<open>f\<close>,
  after the frames \<open>pre\<close> that neither closed the window nor found it set, the loop ends
  with that frame (\<open>length pre + 1\<close> iterations are begun, whatever frames follow): the run
  ends with \<^verbatim>\<open>glfwSwapBuffers\<close>, the read of the flag, the message, and the shutdown, in
  which \<^verbatim>\<open>file_reader_free\<close> is called; that call is the only one, and the program exits
  with code 0.
\<close>

theorem interrupt_flag_polled_once_per_frame:
  "interrupt_polls Outside (snd (main p)) \<and>
   (loop_entry p \<noteq> None \<and> frames p = pre @ f # post \<and>
    (\<forall>g\<in>set pre. \<not> should_close g \<and> \<not> interrupt_flag g) \<and>
    \<not> should_close f \<and> interrupt_flag f \<longrightarrow>
    fst (main p) = Exited 0 \<and>
    count_list (snd (main p)) Glfw_poll_events = length pre + 1 \<and>
    count_list (snd (main p)) (Read_interrupt_flag False) = length pre \<and>
    count_list (snd (main p)) (Read_interrupt_flag True) = 1 \<and>
    count_list (snd (main p)) File_reader_free = 1 \<and>
    (\<exists>t. snd (main p) =
       t @ [Glfw_swap_buffers, Read_interrupt_flag True, Info ''[INFO] - CTRL-C detected...'',
            Raster_display_free, Nk_glfw3_shutdown, Glfw_terminate, File_reader_free,
            Info ''[INFO] - Closed the program successfully'']))"
proof (intro conjI impI)
  show "interrupt_polls Outside (snd (main p))"
    by (rule interrupt_polls_main)
next
  assume a: "loop_entry p \<noteq> None \<and> frames p = pre @ f # post \<and>
      (\<forall>g\<in>set pre. \<not> should_close g \<and> \<not> interrupt_flag g) \<and>
      \<not> should_close f \<and> interrupt_flag f"
  then obtain st0 evs0 where entry: "loop_entry p = Some (st0, evs0)"
    by auto
  from a have fr: "frames p = pre @ f # post"
    and pre: "\<forall>g\<in>set pre. \<not> should_close g \<and> \<not> interrupt_flag g"
    and f: "\<not> should_close f" "interrupt_flag f"
    by simp_all
  note loop = frame_loop_interrupted [OF pre f, of post st0]
  note evs0 = loop_entry_counts [OF entry]
  have m: "main p =
      (Exited EXIT_SUCCESS, Signal_sigint # evs0 @ snd (frame_loop (pre @ f # post) st0) @ shutdown)"
    using main_loop_entry [OF entry] loop by (simp add: fr)
  show "fst (main p) = Exited 0"
    by (simp add: m EXIT_SUCCESS_def)
  show "count_list (snd (main p)) Glfw_poll_events = length pre + 1"
    using loop by (simp add: m evs0 shutdown_def count_list_app)
  show "count_list (snd (main p)) (Read_interrupt_flag False) = length pre"
    using loop by (simp add: m evs0 shutdown_def count_list_app)
  show "count_list (snd (main p)) (Read_interrupt_flag True) = 1"
    using loop by (simp add: m evs0 shutdown_def count_list_app)
  show "count_list (snd (main p)) File_reader_free = 1"
    using loop by (simp add: m evs0 shutdown_def count_list_app)
  from frame_loop_interrupted_end [OF pre f, of post st0] obtain t where
    t: "snd (frame_loop (pre @ f # post) st0) =
        t @ [Glfw_swap_buffers, Read_interrupt_flag True, Info ''[INFO] - CTRL-C detected...'']"
    by blast
  have "snd (main p) =
      (Signal_sigint # evs0 @ t) @
      [Glfw_swap_buffers, Read_interrupt_flag True, Info ''[INFO] - CTRL-C detected...'',
       Raster_display_free, Nk_glfw3_shutdown, Glfw_terminate, File_reader_free,
       Info ''[INFO] - Closed the program successfully'']"
    by (simp add: m t shutdown_def)
  then show "\<exists>t. snd (main p) =
       t @ [Glfw_swap_buffers, Read_interrupt_flag True, Info ''[INFO] - CTRL-C detected...'',
            Raster_display_free, Nk_glfw3_shutdown, Glfw_terminate, File_reader_free,
            Info ''[INFO] - Closed the program successfully'']"
    by blast
qed

theorem interrupt_flag_polled_once_per_frame_witness:
  "interrupt_polls Outside (snd (main example_platform)) \<and>
   frames example_platform = [example_frame1] @ example_frame2 # [example_frame3] \<and>
   interrupt_flag example_frame2 \<and>
   fst (main example_platform) = Exited 0 \<and>
   count_list (snd (main example_platform)) Glfw_poll_events = 2 \<and>
   count_list (snd (main example_platform)) (Read_interrupt_flag False) = 1 \<and>
   count_list (snd (main example_platform)) (Read_interrupt_flag True) = 1 \<and>
   count_list (snd (main example_platform)) File_reader_free = 1 \<and>
   (\<exists>t. snd (main example_platform) =
      t @ [Glfw_swap_buffers, Read_interrupt_flag True, Info ''[INFO] - CTRL-C detected...'',
           Raster_display_free, Nk_glfw3_shutdown, Glfw_terminate, File_reader_free,
           Info ''[INFO] - Closed the program successfully''])"
proof -
  have entry: "loop_entry example_platform \<noteq> None"
    by (simp add: example_loop_entry)
  have fr: "frames example_platform = [example_frame1] @ example_frame2 # [example_frame3]"
    by (simp add: example_platform_def example_frames_def)
  have pre: "\<forall>g\<in>set [example_frame1]. \<not> should_close g \<and> \<not> interrupt_flag g"
    by (simp add: example_frame1_def)
  have f: "\<not> should_close example_frame2 \<and> interrupt_flag example_frame2"
    by (simp add: example_frame2_def)
  from interrupt_flag_polled_once_per_frame
    [of example_platform "[example_frame1]" example_frame2 "[example_frame3]"] entry fr pre f
  show ?thesis by simp
qed

subsection \<open>The viewport\<close>

lemma viewport_steps_append:
  "viewport_steps (a @ b) = viewport_steps a @ viewport_steps b"
  by (induction a) (auto split: event.splits)

lemma viewport_steps_frame_loop:
  "viewport_steps (snd (frame_loop fs st)) =
   claimed_viewport_steps (window_w st, window_h st) (frames_run fs)"
  by (induction fs arbitrary: st) (simp_all add: frame_body_def Let_def viewport_steps_append)

text \<open>
  C10. In a run that enters the frame loop, the window size is queried once at start-up
  and once in every iteration, after the draw. The size assigned to the display at the
  head of an iteration, which is the size of the display the draw receives, is the size
  queried in the iteration before; in the first iteration it is the size queried at
  start-up.
\<close>

theorem viewport_lags_one_frame:
  assumes "loop_entry p = Some (st0, evs0)"
  shows "viewport_steps (snd (main p)) =
         Queried (fst (startup_window_size p)) (snd (startup_window_size p)) #
         claimed_viewport_steps (startup_window_size p) (frames_run (frames p))"
proof -
  note entry = loop_entry_viewport [OF assms]
  have "viewport_steps (snd (main p)) =
      viewport_steps evs0 @ viewport_steps (snd (frame_loop (frames p) st0))"
    using main_loop_entry [OF assms] by (simp add: viewport_steps_append shutdown_def)
  also have "viewport_steps evs0 =
      [Queried (fst (startup_window_size p)) (snd (startup_window_size p))]"
    by (simp add: entry)
  finally show ?thesis
    by (simp add: viewport_steps_frame_loop entry)
qed

theorem viewport_lags_one_frame_witness:
  "viewport_steps (snd (main example_platform)) =
     [Queried 1024 768,
      Assigned 1024 768, Drawn_with 1024 768, Queried 800 600,
      Assigned 800 600, Drawn_with 800 600, Queried 640 480]"
  using viewport_lags_one_frame [OF example_loop_entry]
  by (simp add: example_platform_def example_frames_def example_frame1_def
      example_frame2_def example_frame3_def)

end
